theory Spec2Isabelle
  imports Complex_Main
begin

section \<open>The gradient planner's spline policy (mjpc/planners/gradient/policy.cc)\<close>

text \<open>
  \<^verbatim>\<open>GradientPolicy\<close> stores a control signal as time-tagged knot vectors in buffers of
  fixed capacity and evaluates it at a query time by interpolation, followed by a clamp
  to the actuator ranges. This theory embeds \<^verbatim>\<open>Reset\<close>, \<^verbatim>\<open>Action\<close>, \<^verbatim>\<open>CopyFrom\<close> and
  \<^verbatim>\<open>CopyParametersFrom\<close> of \<^verbatim>\<open>policy.cc\<close>.

  Conventions of the embedding:
  \<^item> a \<^verbatim>\<open>double\<close> is a real number: rounding, infinities and NaN are not represented;
  \<^item> an \<^verbatim>\<open>int\<close> is an unbounded integer. The buffer sizes are themselves \<^verbatim>\<open>int\<close>
    products in \<^verbatim>\<open>Allocate\<close>, and every product that the functions below form either
    lies between 0 and such a size or makes the call leave its buffer;
  \<^item> a \<^verbatim>\<open>std::vector<double>\<close> is a list. A call that would read or write outside a
    buffer has the result \<open>OutOfBounds\<close>: the C++ code performs the access unchecked,
    which is undefined behaviour and raises nothing;
  \<^item> \<open>FatalError\<close> stands for an abort or a propagated fatal error. No statement of
    \<^verbatim>\<open>policy.cc\<close> produces one; only the reference trajectory's own \<^verbatim>\<open>Reset\<close>, which is
    a parameter here, may.
\<close>

subsection \<open>Results of calls\<close>

datatype 'a outcome = Returns 'a | FatalError | OutOfBounds

fun bind_outcome :: "'a outcome \<Rightarrow> ('a \<Rightarrow> 'b outcome) \<Rightarrow> 'b outcome" where
  "bind_outcome (Returns x) f = f x"
| "bind_outcome FatalError f = FatalError"
| "bind_outcome OutOfBounds f = OutOfBounds"

subsection \<open>Data\<close>

text \<open>
  The three values of \<^verbatim>\<open>PolicyRepresentation\<close> that \<^verbatim>\<open>Action\<close> tests for (the spec's
  Hold, Linear and Smooth).
\<close>

datatype PolicyRepresentation = kZeroSpline | kLinearSpline | kCubicSpline

text \<open>
  The two fields of MuJoCo's \<^verbatim>\<open>mjModel\<close> that the policy reads: the number of actuators
  and the \<^verbatim>\<open>nu x 2\<close> array of control ranges, one row \<open>(lo, hi)\<close> per actuator.
\<close>

record mjModel =
  nu :: int
  actuator_ctrlrange :: "(real \<times> real) list"

text \<open>
  The fields of \<^verbatim>\<open>GradientPolicy\<close>. The reference trajectory is opaque: its type is the
  parameter \<open>'t\<close>. The field \<^verbatim>\<open>times\<close> is called \<open>times_v\<close> here.
\<close>

record 't GradientPolicy =
  model :: mjModel
  trajectory :: 't
  k :: "real list"
  parameters :: "real list"
  parameter_update :: "real list"
  times_v :: "real list"
  num_parameters :: int
  num_spline_points :: int
  representation :: PolicyRepresentation

text \<open>
  What \<^verbatim>\<open>Allocate\<close> establishes (lines 39 to 52), for the capacity \<open>K\<close>
  (\<^verbatim>\<open>kMaxTrajectoryHorizon\<close>, a constant declared outside this file), together with the
  data model's bound on the number of active knots and the shape of the range table.
\<close>

definition policy_ok :: "int \<Rightarrow> 't GradientPolicy \<Rightarrow> bool" where
  "policy_ok K p \<longleftrightarrow>
     0 \<le> nu (model p) \<and> 0 \<le> K \<and>
     int (length (k p)) = nu (model p) * K \<and>
     int (length (parameters p)) = nu (model p) * K \<and>
     int (length (parameter_update p)) = nu (model p) * K \<and>
     int (length (times_v p)) = K \<and>
     num_parameters p = nu (model p) * K \<and>
     0 \<le> num_spline_points p \<and> num_spline_points p \<le> K \<and>
     int (length (actuator_ctrlrange (model p))) = nu (model p)"

subsection \<open>Library primitives\<close>

text \<open>
  \<^verbatim>\<open>std::fill(xs.begin(), xs.begin() + n, v)\<close>: the first \<open>n\<close> entries become \<open>v\<close>. The
  iterator range must lie inside the vector.
\<close>

definition fill_prefix :: "real list \<Rightarrow> int \<Rightarrow> real \<Rightarrow> real list outcome" where
  "fill_prefix xs n v =
     (if 0 \<le> n \<and> n \<le> int (length xs)
      then Returns (replicate (nat n) v @ drop (nat n) xs)
      else OutOfBounds)"

text \<open>
  MuJoCo's \<^verbatim>\<open>mju_copy(res, vec, n)\<close>: the first \<open>n\<close> entries of \<open>res\<close> become those of
  \<open>vec\<close>. Both buffers must hold \<open>n\<close> entries.
\<close>

definition mju_copy :: "real list \<Rightarrow> real list \<Rightarrow> int \<Rightarrow> real list outcome" where
  "mju_copy res vec n =
     (if 0 \<le> n \<and> n \<le> int (length res) \<and> n \<le> int (length vec)
      then Returns (take (nat n) vec @ drop (nat n) res)
      else OutOfBounds)"

subsection \<open>Reset (lines 61 to 72)\<close>

text \<open>
  \<open>trajectory_Reset\<close> is \<^verbatim>\<open>Trajectory::Reset\<close>, defined outside this file; the statements
  follow the source's order.
\<close>

definition Reset ::
  "(int \<Rightarrow> 't \<Rightarrow> 't outcome) \<Rightarrow> int \<Rightarrow> 't GradientPolicy \<Rightarrow> 't GradientPolicy outcome" where
  "Reset trajectory_Reset horizon p =
     bind_outcome (trajectory_Reset horizon (trajectory p)) (\<lambda>tr.
     bind_outcome (fill_prefix (k p) (horizon * nu (model p)) 0) (\<lambda>k'.
     bind_outcome (fill_prefix (parameters p) (nu (model p) * horizon) 0) (\<lambda>ps.
     bind_outcome (fill_prefix (parameter_update p) (nu (model p) * horizon) 0) (\<lambda>pu.
     bind_outcome (fill_prefix (times_v p) horizon 0) (\<lambda>ts.
     Returns (p\<lparr>trajectory := tr, k := k', parameters := ps,
                 parameter_update := pu, times_v := ts\<rparr>))))))"

subsection \<open>The kernels that Action calls\<close>

text \<open>
  Modelled from the spec: \<^verbatim>\<open>FindInterval\<close> (utilities, not in this file). The spec:
  locate the bracketing pair of indices \<open>(i0, i1)\<close> in \<open>times[0..count)\<close> with
  \<open>times[i0] \<le> t \<le> times[i1]\<close>, or both equal to the nearest boundary index when \<open>t\<close>
  lies outside the active time range (saturating, never out of bounds).
  Here \<open>c\<close> counts the leading knots that are not after \<open>t\<close>; the pair is \<open>(c - 1, c)\<close>,
  saturated at both ends. A query exactly at the last knot has \<open>i0 = i1\<close>, the last
  index. Reading \<open>count\<close> entries needs a buffer that long.
  The spec's sentence leaves two things open that this definition settles: which pair
  a query exactly at a knot time gets (here the knot is the lower index), and the
  result for an empty knot set (here index 0). Properties that depend on either are
  stated further down for every search that meets the spec's sentence, see
  \<open>interval_search\<close> and \<open>Action_by\<close>.
\<close>

definition FindInterval :: "real list \<Rightarrow> real \<Rightarrow> int \<Rightarrow> (int \<times> int) outcome" where
  "FindInterval sequence value len =
     (if len < 0 \<or> int (length sequence) < len then OutOfBounds
      else let c = int (length (takeWhile (\<lambda>x. x \<le> value) (take (nat len) sequence)))
           in Returns (if c = 0 then (0, 0)
                       else if c = len then (len - 1, len - 1)
                       else (c - 1, c)))"

text \<open>
  Modelled from the spec: how the kernels (utilities, not in this file) read knot \<open>i\<close>
  of a flattened buffer. The spec: contiguous arrays indexed by
  \<open>knotIndex * dimension + d\<close>. The vector is the \<open>dimn\<close> entries from \<open>dimn * i\<close> on,
  which must lie inside the buffer.
\<close>

definition knot :: "real list \<Rightarrow> int \<Rightarrow> int \<Rightarrow> real list outcome" where
  "knot ys dimn i =
     (if 0 \<le> dimn \<and> 0 \<le> i \<and> dimn * i + dimn \<le> int (length ys)
      then Returns (take (nat dimn) (drop (nat (dimn * i)) ys))
      else OutOfBounds)"

text \<open>
  Modelled from the spec: \<^verbatim>\<open>ZeroInterpolation\<close> (utilities, not in this file), the Hold
  kernel with arguments (query time, times, parameters, dimension, active count):
  the output is \<open>parameters[i0]\<close> verbatim.
\<close>

definition ZeroInterpolation ::
  "real \<Rightarrow> real list \<Rightarrow> real list \<Rightarrow> int \<Rightarrow> int \<Rightarrow> real list outcome" where
  "ZeroInterpolation x xs ys dimn len =
     bind_outcome (FindInterval xs x len) (\<lambda>bounds. knot ys dimn (fst bounds))"

text \<open>
  Modelled from the spec: the linear rule of the Linear kernel on the segment
  \<open>(i0, i1)\<close>. The spec: for each dimension, the linear interpolation of \<open>parameters[i0]\<close>
  and \<open>parameters[i1]\<close> weighted by the normalised position of \<open>t\<close> within
  \<open>[times[i0], times[i1]]\<close>.
\<close>

definition linear_rule ::
  "real \<Rightarrow> real list \<Rightarrow> real list \<Rightarrow> int \<Rightarrow> int \<Rightarrow> int \<Rightarrow> real list outcome" where
  "linear_rule x xs ys dimn i0 i1 =
     bind_outcome (knot ys dimn i0) (\<lambda>y0.
     bind_outcome (knot ys dimn i1) (\<lambda>y1.
       let s = (x - xs ! nat i0) / (xs ! nat i1 - xs ! nat i0)
       in Returns (map2 (\<lambda>a b. (1 - s) * a + s * b) y0 y1)))"

text \<open>
  Modelled from the spec: \<^verbatim>\<open>LinearInterpolation\<close> (utilities, not in this file), the
  Linear kernel with arguments (query time, times, parameters, dimension, active
  count): the linear rule on the pair that the interval search gives. A degenerate
  pair \<open>i0 = i1\<close> resolves to hold, as the spec says of the degenerate case, so that
  nothing is divided by zero.
\<close>

definition LinearInterpolation ::
  "real \<Rightarrow> real list \<Rightarrow> real list \<Rightarrow> int \<Rightarrow> int \<Rightarrow> real list outcome" where
  "LinearInterpolation x xs ys dimn len =
     bind_outcome (FindInterval xs x len) (\<lambda>bounds.
       if fst bounds = snd bounds then knot ys dimn (fst bounds)
       else linear_rule x xs ys dimn (fst bounds) (snd bounds))"

text \<open>
  Modelled from the spec: \<^verbatim>\<open>CubicInterpolation\<close> (utilities, not in this file), the
  Smooth kernel: a smooth interpolation through the neighbourhood of \<open>(i0, i1)\<close> that
  falls back to the linear rule on the first and the last active segment. The spec
  leaves the rule on the inner segments open; it is the parameter \<open>smooth\<close>, which gives
  the value of dimension \<open>d\<close> from (query time, times, parameters, dimension, active
  count, \<open>i0\<close>).
\<close>

definition CubicInterpolation ::
  "(real \<Rightarrow> real list \<Rightarrow> real list \<Rightarrow> int \<Rightarrow> int \<Rightarrow> int \<Rightarrow> nat \<Rightarrow> real) \<Rightarrow>
   real \<Rightarrow> real list \<Rightarrow> real list \<Rightarrow> int \<Rightarrow> int \<Rightarrow> real list outcome" where
  "CubicInterpolation smooth x xs ys dimn len =
     bind_outcome (FindInterval xs x len) (\<lambda>bounds.
       if fst bounds = snd bounds then knot ys dimn (fst bounds)
       else if fst bounds = 0 \<or> snd bounds = len - 1
         then linear_rule x xs ys dimn (fst bounds) (snd bounds)
       else bind_outcome (knot ys dimn (fst bounds)) (\<lambda>y0.
            bind_outcome (knot ys dimn (snd bounds)) (\<lambda>y1.
              Returns (map (smooth x xs ys dimn len (fst bounds)) [0 ..< nat dimn]))))"

text \<open>
  Modelled from the spec: \<^verbatim>\<open>Clamp\<close> (utilities, not in this file), with arguments
  (buffer, ranges per dimension, dimension). The spec: independently clip each output
  component to its actuator's \<open>[lo, hi]\<close> range. \<open>clip\<close> is the clip of one component,
  \<open>Clamp\<close> applies it to the first \<open>n\<close> components, which needs \<open>n\<close> rows of ranges.
\<close>

definition clip :: "real \<Rightarrow> real \<times> real \<Rightarrow> real" where
  "clip v r = (if v < fst r then fst r else if snd r < v then snd r else v)"

definition Clamp :: "real list \<Rightarrow> (real \<times> real) list \<Rightarrow> int \<Rightarrow> real list outcome" where
  "Clamp x bounds n =
     (if 0 \<le> n \<and> n \<le> int (length x) \<and> n \<le> int (length bounds)
      then Returns (map2 clip (take (nat n) x) (take (nat n) bounds) @ drop (nat n) x)
      else OutOfBounds)"

subsection \<open>Action (lines 75 to 97)\<close>

text \<open>
  The result is the action vector written to the output buffer; the argument
  \<^verbatim>\<open>state\<close> is not used by the source. The three tests of the source's chain cover the
  three values of the enumeration, so the last one is the final branch. \<open>smooth\<close> is the
  inner rule of the Smooth kernel.
\<close>

definition Action ::
  "(real \<Rightarrow> real list \<Rightarrow> real list \<Rightarrow> int \<Rightarrow> int \<Rightarrow> int \<Rightarrow> nat \<Rightarrow> real) \<Rightarrow>
   't GradientPolicy \<Rightarrow> real \<Rightarrow> real list outcome" where
  "Action smooth p time =
     bind_outcome (FindInterval (times_v p) time (num_spline_points p)) (\<lambda>bounds.
     bind_outcome
       (if fst bounds = snd bounds \<or> representation p = kZeroSpline
        then ZeroInterpolation time (times_v p) (parameters p) (nu (model p))
               (num_spline_points p)
        else if representation p = kLinearSpline
        then LinearInterpolation time (times_v p) (parameters p) (nu (model p))
               (num_spline_points p)
        else CubicInterpolation smooth time (times_v p) (parameters p) (nu (model p))
               (num_spline_points p))
       (\<lambda>action. Clamp action (actuator_ctrlrange (model p)) (nu (model p))))"

subsection \<open>The interval search as a parameter\<close>








subsection \<open>CopyFrom (lines 100 to 120) and CopyParametersFrom (lines 123 to 129)\<close>

text \<open>
  \<open>p\<close> is the destination (\<^verbatim>\<open>this\<close>), \<open>policy\<close> the source. The extent of the
  improvement buffer uses the destination's model; the other extents are the source's.
\<close>

definition CopyFrom ::
  "'t GradientPolicy \<Rightarrow> 't GradientPolicy \<Rightarrow> int \<Rightarrow> 't GradientPolicy outcome" where
  "CopyFrom p policy horizon =
     bind_outcome (mju_copy (k p) (k policy) (horizon * nu (model p))) (\<lambda>k'.
     bind_outcome (mju_copy (parameters p) (parameters policy) (num_parameters policy)) (\<lambda>ps.
     bind_outcome (mju_copy (parameter_update p) (parameter_update policy)
                     (num_parameters policy)) (\<lambda>pu.
     bind_outcome (mju_copy (times_v p) (times_v policy) (num_spline_points policy)) (\<lambda>ts.
     Returns (p\<lparr>trajectory := trajectory policy, k := k', parameters := ps,
                 parameter_update := pu, times_v := ts,
                 num_spline_points := num_spline_points policy,
                 num_parameters := num_parameters policy,
                 representation := representation policy\<rparr>)))))"

definition CopyParametersFrom ::
  "'t GradientPolicy \<Rightarrow> real list \<Rightarrow> real list \<Rightarrow> 't GradientPolicy outcome" where
  "CopyParametersFrom p src_parameters src_times =
     bind_outcome (mju_copy (parameters p) src_parameters
                     (num_spline_points p * nu (model p))) (\<lambda>ps.
     bind_outcome (mju_copy (times_v p) src_times (num_spline_points p)) (\<lambda>ts.
     Returns (p\<lparr>parameters := ps, times_v := ts\<rparr>)))"

subsection \<open>Notions used to state the properties\<close>

text \<open>
  \<open>knot_vector p i\<close> is the spec's \<open>parameters[i]\<close>, the parameter vector of knot \<open>i\<close>;
  \<open>held_action p i\<close> is that vector clamped per dimension, the zero-order hold at knot \<open>i\<close>.
\<close>

definition knot_vector :: "'t GradientPolicy \<Rightarrow> int \<Rightarrow> real list" where
  "knot_vector p i = take (nat (nu (model p))) (drop (nat (nu (model p) * i)) (parameters p))"

definition held_action :: "'t GradientPolicy \<Rightarrow> int \<Rightarrow> real list" where
  "held_action p i = map2 clip (knot_vector p i) (actuator_ctrlrange (model p))"

subsection \<open>Example policies\<close>

text \<open>
  \<open>demo_policy\<close>: two actuators, capacity 3, two active knots at times 0 and 1, linear.
  \<open>demo_source\<close>: a source policy of the same shape. \<open>hold_policy\<close>: \<open>demo_policy\<close> in
  the Hold representation. \<open>tied_policy\<close>: one actuator, two active knots with the same
  time 0 and different parameters. \<open>flat_rule\<close> is an inner rule for the Smooth kernel,
  \<open>demo_trajectory_Reset\<close> a trajectory reset that returns.
\<close>

definition demo_model :: mjModel where
  "demo_model = \<lparr>nu = 2, actuator_ctrlrange = [(-100, 100), (0, 25)]\<rparr>"

definition demo_policy :: "nat GradientPolicy" where
  "demo_policy = \<lparr>model = demo_model, trajectory = 7,
     k = [1, 2, 3, 4, 5, 6], parameters = [10, 20, 30, 40, 50, 60],
     parameter_update = [6, 5, 4, 3, 2, 1], times_v = [0, 1, 2],
     num_parameters = 6, num_spline_points = 2, representation = kLinearSpline\<rparr>"

definition flat_rule ::
  "real \<Rightarrow> real list \<Rightarrow> real list \<Rightarrow> int \<Rightarrow> int \<Rightarrow> int \<Rightarrow> nat \<Rightarrow> real" where
  "flat_rule x xs ys dimn len i0 d = 0"

definition demo_trajectory_Reset :: "int \<Rightarrow> nat \<Rightarrow> nat outcome" where
  "demo_trajectory_Reset horizon t = Returns (t + 1)"




definition demo_source :: "nat GradientPolicy" where
  "demo_source = \<lparr>model = demo_model, trajectory = 9,
     k = [11, 12, 13, 14, 15, 16], parameters = [-1, -2, -3, -4, -5, -6],
     parameter_update = [21, 22, 23, 24, 25, 26], times_v = [3, 4, 5],
     num_parameters = 6, num_spline_points = 3, representation = kCubicSpline\<rparr>"

section \<open>Properties\<close>

subsection \<open>Extents and primitives\<close>

lemma extent_le: "(0::int) \<le> n \<Longrightarrow> h \<le> K \<Longrightarrow> n * h \<le> n * K"
  by (simp add: mult_left_mono)

lemma fill_prefix_Returns:
  "0 \<le> n \<Longrightarrow> n \<le> int (length xs) \<Longrightarrow>
   fill_prefix xs n v = Returns (replicate (nat n) v @ drop (nat n) xs)"
  by (simp add: fill_prefix_def)

lemma fill_prefix_beyond: "int (length xs) < n \<Longrightarrow> fill_prefix xs n v = OutOfBounds"
  by (simp add: fill_prefix_def)

lemma bind_fill_prefix_OutOfBounds:
  "bind_outcome (fill_prefix xs n v) (\<lambda>x. OutOfBounds) = OutOfBounds"
  by (simp add: fill_prefix_def)

lemma length_prefix_replaced:
  "0 \<le> n \<Longrightarrow> n \<le> int (length xs) \<Longrightarrow>
   int (length (replicate (nat n) v @ drop (nat n) xs)) = int (length xs)"
  by simp

lemma mju_copy_Returns:
  "0 \<le> n \<Longrightarrow> n \<le> int (length res) \<Longrightarrow> n \<le> int (length vec) \<Longrightarrow>
   mju_copy res vec n = Returns (take (nat n) vec @ drop (nat n) res)"
  by (simp add: mju_copy_def)

lemma take_copied:
  "n \<le> length vec \<Longrightarrow> take n (take n vec @ drop n res) = take n vec"
  by simp

lemma demo_policy_ok: "policy_ok 3 demo_policy"
  by (simp add: policy_ok_def demo_policy_def demo_model_def)

lemma demo_source_ok: "policy_ok 3 demo_source"
  by (simp add: policy_ok_def demo_source_def demo_model_def)



subsection \<open>Reset\<close>

text \<open>
  Within the capacity, and when the trajectory's own reset returns, \<open>Reset\<close> returns
  the policy with the four prefixes zeroed and nothing else changed.
\<close>

lemma Reset_Returns:
  assumes ok: "policy_ok K p" and h0: "0 \<le> h" and hK: "h \<le> K"
    and tr: "trajectory_Reset h (trajectory p) = Returns tr"
  shows "Reset trajectory_Reset h p =
     Returns (p\<lparr>trajectory := tr,
       k := replicate (nat (h * nu (model p))) 0 @ drop (nat (h * nu (model p))) (k p),
       parameters := replicate (nat (nu (model p) * h)) 0
                       @ drop (nat (nu (model p) * h)) (parameters p),
       parameter_update := replicate (nat (nu (model p) * h)) 0
                       @ drop (nat (nu (model p) * h)) (parameter_update p),
       times_v := replicate (nat h) 0 @ drop (nat h) (times_v p)\<rparr>)"
proof -
  from ok have n0: "0 \<le> nu (model p)" by (simp add: policy_ok_def)
  have e0: "0 \<le> nu (model p) * h" using n0 h0 by simp
  have e1: "nu (model p) * h \<le> nu (model p) * K" using n0 hK by (rule extent_le)
  have fk: "fill_prefix (k p) (h * nu (model p)) 0 =
      Returns (replicate (nat (h * nu (model p))) 0 @ drop (nat (h * nu (model p))) (k p))"
    using ok e0 e1 by (intro fill_prefix_Returns) (simp_all add: policy_ok_def mult.commute)
  have fp: "fill_prefix (parameters p) (nu (model p) * h) 0 =
      Returns (replicate (nat (nu (model p) * h)) 0
               @ drop (nat (nu (model p) * h)) (parameters p))"
    using ok e0 e1 by (intro fill_prefix_Returns) (simp_all add: policy_ok_def)
  have fu: "fill_prefix (parameter_update p) (nu (model p) * h) 0 =
      Returns (replicate (nat (nu (model p) * h)) 0
               @ drop (nat (nu (model p) * h)) (parameter_update p))"
    using ok e0 e1 by (intro fill_prefix_Returns) (simp_all add: policy_ok_def)
  have ft: "fill_prefix (times_v p) h 0 =
      Returns (replicate (nat h) 0 @ drop (nat h) (times_v p))"
    using ok h0 hK by (intro fill_prefix_Returns) (simp_all add: policy_ok_def)
  show ?thesis
    unfolding Reset_def by (simp only: tr fk fp fu ft bind_outcome.simps)
qed

text \<open>
  C5. For a horizon \<open>h\<close> with \<open>0 \<le> h \<le> maxHorizon\<close>, \<open>Reset h\<close> returns; afterwards the
  improvement buffer and the parameters are \<open>h * nu\<close> zeros followed by their old
  entries from index \<open>h * nu\<close> on, and the times are \<open>h\<close> zeros followed by their old
  entries from index \<open>h\<close> on. So exactly the prefixes are zeroed and the stale entries
  behind them are kept.
\<close>

theorem Reset_zeroes_active_prefix:
  assumes "policy_ok K p" and "0 \<le> h" and "h \<le> K"
    and "trajectory_Reset h (trajectory p) = Returns tr"
  shows "\<exists>p'. Reset trajectory_Reset h p = Returns p' \<and>
     k p' = replicate (nat (h * nu (model p))) 0 @ drop (nat (h * nu (model p))) (k p) \<and>
     parameters p' = replicate (nat (h * nu (model p))) 0
                       @ drop (nat (h * nu (model p))) (parameters p) \<and>
     times_v p' = replicate (nat h) 0 @ drop (nat h) (times_v p)"
  using Reset_Returns [where trajectory_Reset = trajectory_Reset and tr = tr, OF assms]
  by (simp add: mult.commute)

theorem Reset_zeroes_active_prefix_witness:
  "\<exists>p'. Reset demo_trajectory_Reset 2 demo_policy = Returns p' \<and>
     k p' = [0, 0, 0, 0, 5, 6] \<and> parameters p' = [0, 0, 0, 0, 50, 60] \<and>
     times_v p' = [0, 0, 2]"
proof -
  have tr: "demo_trajectory_Reset 2 (trajectory demo_policy) = Returns 8"
    by (simp add: demo_policy_def demo_trajectory_Reset_def)
  have "(0::int) \<le> 2" and "(2::int) \<le> 3" by simp_all
  from Reset_zeroes_active_prefix
         [where trajectory_Reset = demo_trajectory_Reset and tr = 8,
          OF demo_policy_ok this tr]
  show ?thesis
    by (simp add: demo_policy_def demo_model_def numeral_eq_Suc)
qed

text \<open>
  C10. For a horizon \<open>h\<close> with \<open>0 \<le> h \<le> maxHorizon\<close>, \<open>Reset h\<close> also zeroes the first
  \<open>h * nu\<close> entries of the parameter-update buffer and keeps its entries from index
  \<open>h * nu\<close> on.
\<close>

theorem Reset_zeroes_parameter_update:
  assumes "policy_ok K p" and "0 \<le> h" and "h \<le> K"
    and "trajectory_Reset h (trajectory p) = Returns tr"
  shows "\<exists>p'. Reset trajectory_Reset h p = Returns p' \<and>
     parameter_update p' = replicate (nat (h * nu (model p))) 0
                             @ drop (nat (h * nu (model p))) (parameter_update p)"
  using Reset_Returns [where trajectory_Reset = trajectory_Reset and tr = tr, OF assms]
  by (simp add: mult.commute)

theorem Reset_zeroes_parameter_update_witness:
  "\<exists>p'. Reset demo_trajectory_Reset 1 demo_policy = Returns p' \<and>
     parameter_update p' = [0, 0, 4, 3, 2, 1]"
proof -
  have tr: "demo_trajectory_Reset 1 (trajectory demo_policy) = Returns 8"
    by (simp add: demo_policy_def demo_trajectory_Reset_def)
  have "(0::int) \<le> 1" and "(1::int) \<le> 3" by simp_all
  from Reset_zeroes_parameter_update
         [where trajectory_Reset = demo_trajectory_Reset and tr = 8,
          OF demo_policy_ok this tr]
  show ?thesis
    by (simp add: demo_policy_def demo_model_def numeral_eq_Suc)
qed

text \<open>
  C6 (amended). \<open>Reset\<close> contains no check of the horizon. For a horizon beyond the
  capacity it does not fail fast: unless the trajectory's own reset raises a fatal
  error, the fill of the times (and, with at least one actuator, already the fill of
  the improvement buffer) runs past the end of its buffer. The bound
  \<open>h \<le> maxHorizon\<close> is a precondition that callers must meet.
\<close>

theorem Reset_beyond_capacity_unchecked:
  assumes ok: "policy_ok K p" and h: "K < h"
    and tr: "trajectory_Reset h (trajectory p) \<noteq> FatalError"
  shows "Reset trajectory_Reset h p = OutOfBounds"
proof -
  from ok h have "int (length (times_v p)) < h" by (simp add: policy_ok_def)
  then have t: "fill_prefix (times_v p) h 0 = OutOfBounds" by (rule fill_prefix_beyond)
  show ?thesis
  proof (cases "trajectory_Reset h (trajectory p)")
    case (Returns tr')
    then show ?thesis
      by (simp add: Reset_def t bind_fill_prefix_OutOfBounds)
  next
    case FatalError
    with tr show ?thesis by simp
  next
    case OutOfBounds
    then show ?thesis by (simp add: Reset_def)
  qed
qed

theorem Reset_beyond_capacity_unchecked_witness:
  "policy_ok 3 demo_policy \<and> (3::int) < 4 \<and>
   demo_trajectory_Reset 4 (trajectory demo_policy) \<noteq> FatalError \<and>
   Reset demo_trajectory_Reset 4 demo_policy = OutOfBounds"
proof -
  have h: "(3::int) < 4" by simp
  have tr: "demo_trajectory_Reset 4 (trajectory demo_policy) \<noteq> FatalError"
    by (simp add: demo_trajectory_Reset_def)
  from Reset_beyond_capacity_unchecked
         [where trajectory_Reset = demo_trajectory_Reset, OF demo_policy_ok h tr] demo_policy_ok h tr
  show ?thesis by blast
qed

text \<open>
  C6 as stated fails: on \<open>demo_policy\<close>, of capacity 3, \<open>Reset 4\<close> raises no fatal error;
  it leaves the buffers.
\<close>

theorem Reset_beyond_capacity_does_not_fail_fast:
  "policy_ok 3 demo_policy \<and> (3::int) < 4 \<and>
   Reset demo_trajectory_Reset 4 demo_policy = OutOfBounds \<and>
   Reset demo_trajectory_Reset 4 demo_policy \<noteq> FatalError"
  by (simp add: policy_ok_def demo_policy_def demo_model_def Reset_def fill_prefix_def
        demo_trajectory_Reset_def)

subsection \<open>Interval search and kernels\<close>

text \<open>
  On a buffer that holds the active knots the search returns a pair of indices that
  are equal or adjacent and lie inside the active range (index 0 when no knot is
  active).
\<close>

lemma FindInterval_Returns:
  assumes "0 \<le> len" and "len \<le> int (length xs)"
  shows "\<exists>i0 i1. FindInterval xs t len = Returns (i0, i1) \<and>
           0 \<le> i0 \<and> i0 \<le> i1 \<and> i1 \<le> i0 + 1 \<and> i1 \<le> max 0 (len - 1)"
proof -
  define c where "c = int (length (takeWhile (\<lambda>x. x \<le> t) (take (nat len) xs)))"
  have "length (takeWhile (\<lambda>x. x \<le> t) (take (nat len) xs)) \<le> length (take (nat len) xs)"
    by (rule length_takeWhile_le)
  then have c: "0 \<le> c" "c \<le> len" using assms by (simp_all add: c_def)
  have "FindInterval xs t len =
      Returns (if c = 0 then (0, 0) else if c = len then (len - 1, len - 1) else (c - 1, c))"
    using assms by (simp add: FindInterval_def Let_def c_def)
  with c show ?thesis by auto
qed

lemma take_nonempty:
  assumes "1 \<le> len" and "len \<le> int (length xs)"
  shows "take (nat len) xs = xs ! 0 # take (nat len - 1) (tl xs)"
proof -
  from assms obtain x rest where xs: "xs = x # rest" by (cases xs) auto
  from assms obtain m where m: "nat len = Suc m" by (cases "nat len") auto
  show ?thesis by (simp add: xs m)
qed

lemma FindInterval_before:
  assumes "1 \<le> len" and "len \<le> int (length xs)" and "t < xs ! 0"
  shows "FindInterval xs t len = Returns (0, 0)"
proof -
  have "takeWhile (\<lambda>x. x \<le> t) (take (nat len) xs) = []"
    using assms(3) by (simp add: take_nonempty [OF assms(1,2)])
  then show ?thesis using assms(1,2) by (simp add: FindInterval_def)
qed

lemma FindInterval_single:
  assumes "1 \<le> int (length xs)"
  shows "FindInterval xs t 1 = Returns (0, 0)"
proof -
  have "take (nat 1) xs = [xs ! 0]"
    using take_nonempty [of 1 xs] assms by simp
  then show ?thesis using assms by (auto simp: FindInterval_def)
qed

lemma FindInterval_at_or_after:
  assumes len: "1 \<le> len" "len \<le> int (length xs)"
    and srt: "sorted (take (nat len) xs)" and t: "xs ! nat (len - 1) \<le> t"
  shows "FindInterval xs t len = Returns (len - 1, len - 1)"
proof -
  let ?ys = "take (nat len) xs"
  have l: "length ?ys = nat len" using len by simp
  have "\<forall>x \<in> set ?ys. x \<le> t"
  proof
    fix x assume "x \<in> set ?ys"
    then obtain i where i: "i < length ?ys" "x = ?ys ! i" by (auto simp: in_set_conv_nth)
    with l len have "i \<le> nat len - 1" "nat len - 1 < length ?ys" by simp_all
    with srt have "?ys ! i \<le> ?ys ! (nat len - 1)" by (rule sorted_nth_mono)
    also have "?ys ! (nat len - 1) = xs ! nat (len - 1)" using len by (simp add: nat_diff_distrib)
    finally show "x \<le> t" using t i by simp
  qed
  then have eq: "takeWhile (\<lambda>x. x \<le> t) ?ys = ?ys" by simp
  have "int (length (takeWhile (\<lambda>x. x \<le> t) ?ys)) = int (length ?ys)"
    by (simp only: eq)
  also have "\<dots> = len" using len by simp
  finally have c: "int (length (takeWhile (\<lambda>x. x \<le> t) ?ys)) = len" .
  have "FindInterval xs t len =
      Returns (if len = 0 then (0, 0) else if len = len then (len - 1, len - 1)
               else (len - 1, len))"
    unfolding FindInterval_def Let_def c using len by simp
  then show ?thesis using len by simp
qed

lemma FindInterval_first_knot:
  assumes "2 \<le> len" and "len \<le> int (length xs)" and "xs ! 0 < xs ! 1"
  shows "FindInterval xs (xs ! 0) len = Returns (0, 1)"
proof -
  from assms obtain a b rest where xs: "xs = a # b # rest"
    by (cases xs; cases "tl xs") auto
  from assms obtain m where m: "nat len = Suc (Suc m)"
    by (cases "nat len"; cases "nat len - 1") auto
  have "takeWhile (\<lambda>x. x \<le> xs ! 0) (take (nat len) xs) = [a]"
    using assms(3) by (simp add: xs m)
  then show ?thesis using assms(1,2) by (simp add: FindInterval_def)
qed

lemma knot_Returns:
  assumes "0 \<le> d" and "0 \<le> i" and "i < K" and "int (length ys) = d * K"
  shows "knot ys d i = Returns (take (nat d) (drop (nat (d * i)) ys))"
    and "length (take (nat d) (drop (nat (d * i)) ys)) = nat d"
proof -
  have "d * (i + 1) \<le> d * K" using assms by (intro extent_le) simp_all
  then have le: "d * i + d \<le> int (length ys)" using assms by (simp add: algebra_simps)
  then show "knot ys d i = Returns (take (nat d) (drop (nat (d * i)) ys))"
    using assms by (simp add: knot_def)
  have "0 \<le> d * i" using assms by simp
  with le assms have "nat (d * i) + nat d \<le> length ys" by linarith
  then show "length (take (nat d) (drop (nat (d * i)) ys)) = nat d" by simp
qed

lemma knot_active:
  assumes ok: "policy_ok K p" and K0: "0 < K"
    and i0: "0 \<le> i" and i1: "i \<le> max 0 (num_spline_points p - 1)"
  shows "knot (parameters p) (nu (model p)) i =
           Returns (knot_vector p i)"
    and "length (knot_vector p i)
           = nat (nu (model p))"
proof -
  from ok have "num_spline_points p \<le> K" by (simp add: policy_ok_def)
  with K0 i1 have iK: "i < K" by linarith
  from ok have d: "0 \<le> nu (model p)"
    and len: "int (length (parameters p)) = nu (model p) * K"
    by (simp_all add: policy_ok_def)
  show "knot (parameters p) (nu (model p)) i = Returns (knot_vector p i)"
    unfolding knot_vector_def using d i0 iK len by (rule knot_Returns)
  show "length (knot_vector p i) = nat (nu (model p))"
    unfolding knot_vector_def using d i0 iK len by (rule knot_Returns)
qed


lemma linear_rule_Returns:
  assumes "knot ys d i0 = Returns y0" and "knot ys d i1 = Returns y1"
    and "length y0 = n" and "length y1 = n"
  shows "\<exists>y. linear_rule x xs ys d i0 i1 = Returns y \<and> length y = n"
  using assms by (simp add: linear_rule_def Let_def)

lemma map2_left: "length xs = length ys \<Longrightarrow> map2 (\<lambda>a b. a) xs ys = xs"
  by (induction xs ys rule: list_induct2) simp_all

lemma linear_rule_at_left:
  assumes "knot ys d i0 = Returns y0" and "knot ys d i1 = Returns y1"
    and "length y0 = length y1" and "x = xs ! nat i0"
  shows "linear_rule x xs ys d i0 i1 = Returns y0"
  using assms by (simp add: linear_rule_def map2_left)

lemma linear_rule_at_middle:
  assumes "knot ys d i0 = Returns y0" and "knot ys d i1 = Returns y1"
    and "xs ! nat i0 = 0" and "xs ! nat i1 = 1"
  shows "linear_rule (1 / 2) xs ys d i0 i1 = Returns (map2 (\<lambda>a b. (a + b) / 2) y0 y1)"
proof -
  have "(\<lambda>a b. (1 - 1 / 2) * a + 1 / 2 * b) = (\<lambda>a b :: real. (a + b) / 2)"
    by (intro ext) (simp add: field_simps)
  then show ?thesis using assms by (simp add: linear_rule_def)
qed


lemma Clamp_Returns:
  assumes "0 \<le> n" and "int (length x) = n" and "int (length bounds) = n"
  shows "Clamp x bounds n = Returns (map2 clip x bounds)"
  using assms by (simp add: Clamp_def)

lemma clip_in_range: "fst r \<le> snd r \<Longrightarrow> fst r \<le> clip v r \<and> clip v r \<le> snd r"
  by (simp add: clip_def)

subsection \<open>Action\<close>

text \<open>
  \<open>Action\<close> is total on an allocated policy: it returns the clamp of a vector of \<open>nu\<close>
  entries, which is the knot vector \<open>i0\<close> when the pair is degenerate or the
  representation is Hold.
\<close>

lemma Action_Returns:
  assumes ok: "policy_ok K p" and K0: "0 < K"
  shows "\<exists>i0 i1 y. FindInterval (times_v p) t (num_spline_points p) = Returns (i0, i1) \<and>
           length y = nat (nu (model p)) \<and>
           Action smooth p t = Returns (map2 clip y (actuator_ctrlrange (model p))) \<and>
           (i0 = i1 \<or> representation p = kZeroSpline \<longrightarrow>
              y = knot_vector p i0)"
proof -
  let ?n = "num_spline_points p" and ?d = "nu (model p)"
  from ok have n: "0 \<le> ?n" "?n \<le> int (length (times_v p))" and d: "0 \<le> ?d"
    and r: "int (length (actuator_ctrlrange (model p))) = ?d"
    by (simp_all add: policy_ok_def)
  from FindInterval_Returns [OF n, of t] obtain i0 i1 where
    fi: "FindInterval (times_v p) t ?n = Returns (i0, i1)"
    and b: "0 \<le> i0" "i0 \<le> i1" "i1 \<le> max 0 (?n - 1)" by blast
  from b have b': "0 \<le> i1" "i0 \<le> max 0 (?n - 1)" by simp_all
  let ?y0 = "knot_vector p i0"
  let ?y1 = "knot_vector p i1"
  note k0 = knot_active [OF ok K0 b(1) b'(2)]
  note k1 = knot_active [OF ok K0 b'(1) b(3)]
  let ?kernel = "if i0 = i1 \<or> representation p = kZeroSpline
        then ZeroInterpolation t (times_v p) (parameters p) ?d ?n
        else if representation p = kLinearSpline
        then LinearInterpolation t (times_v p) (parameters p) ?d ?n
        else CubicInterpolation smooth t (times_v p) (parameters p) ?d ?n"
  have "\<exists>y. ?kernel = Returns y \<and> length y = nat ?d \<and>
          (i0 = i1 \<or> representation p = kZeroSpline \<longrightarrow> y = ?y0)"
  proof (cases "i0 = i1 \<or> representation p = kZeroSpline")
    case True
    then have "?kernel = Returns ?y0"
      by (simp add: ZeroInterpolation_def fi k0(1))
    with k0(2) show ?thesis by blast
  next
    case False
    from linear_rule_Returns [OF k0(1) k1(1) k0(2) k1(2)] obtain y where
      y: "linear_rule t (times_v p) (parameters p) ?d i0 i1 = Returns y" "length y = nat ?d"
      by blast
    from False y show ?thesis
      by (simp add: LinearInterpolation_def CubicInterpolation_def fi k0(1) k1(1))
  qed
  then obtain y where y: "?kernel = Returns y" "length y = nat ?d"
    "i0 = i1 \<or> representation p = kZeroSpline \<longrightarrow> y = ?y0" by blast
  have "Clamp y (actuator_ctrlrange (model p)) ?d
          = Returns (map2 clip y (actuator_ctrlrange (model p)))"
    using d y(2) r by (intro Clamp_Returns) simp_all
  with y(1) have "Action smooth p t = Returns (map2 clip y (actuator_ctrlrange (model p)))"
    by (simp add: Action_def fi)
  with fi y show ?thesis by blast
qed

lemma Action_hold:
  assumes ok: "policy_ok K p" and K0: "0 < K"
    and fi: "FindInterval (times_v p) t (num_spline_points p) = Returns (i0, i1)"
    and h: "i0 = i1 \<or> representation p = kZeroSpline"
  shows "Action smooth p t = Returns (held_action p i0)"
  using Action_Returns [OF ok K0, of t smooth] fi h by (auto simp: held_action_def)

lemma Action_kernel:
  assumes ok: "policy_ok K p"
    and fi: "FindInterval (times_v p) t (num_spline_points p) = Returns (i0, i1)"
    and kernel: "(if i0 = i1 \<or> representation p = kZeroSpline
        then ZeroInterpolation t (times_v p) (parameters p) (nu (model p))
               (num_spline_points p)
        else if representation p = kLinearSpline
        then LinearInterpolation t (times_v p) (parameters p) (nu (model p))
               (num_spline_points p)
        else CubicInterpolation smooth t (times_v p) (parameters p) (nu (model p))
               (num_spline_points p)) = Returns y"
    and len: "length y = nat (nu (model p))"
  shows "Action smooth p t = Returns (map2 clip y (actuator_ctrlrange (model p)))"
proof -
  from ok have "0 \<le> nu (model p)"
    and "int (length (actuator_ctrlrange (model p))) = nu (model p)"
    by (simp_all add: policy_ok_def)
  with len have "Clamp y (actuator_ctrlrange (model p)) (nu (model p))
          = Returns (map2 clip y (actuator_ctrlrange (model p)))"
    by (intro Clamp_Returns) simp_all
  with kernel show ?thesis by (simp add: Action_def fi)
qed

lemma Action_at_first_knot:
  assumes ok: "policy_ok K p" and n: "2 \<le> num_spline_points p"
    and lt: "times_v p ! 0 < times_v p ! 1"
  shows "Action smooth p (times_v p ! 0) = Returns (held_action p 0)"
proof -
  let ?n = "num_spline_points p" and ?d = "nu (model p)" and ?t = "times_v p ! 0"
  from ok n have K0: "0 < K" and nl: "?n \<le> int (length (times_v p))"
    by (simp_all add: policy_ok_def)
  have fi: "FindInterval (times_v p) ?t ?n = Returns (0, 1)"
    using n nl lt by (rule FindInterval_first_knot)
  have k0: "knot (parameters p) ?d 0 = Returns (knot_vector p 0)"
    "length (knot_vector p 0) = nat ?d"
    using n by (simp_all add: knot_active [OF ok K0])
  have k1: "knot (parameters p) ?d 1 = Returns (knot_vector p 1)"
    "length (knot_vector p 1) = nat ?d"
    using n by (simp_all add: knot_active [OF ok K0])
  have lr: "linear_rule ?t (times_v p) (parameters p) ?d 0 1 = Returns (knot_vector p 0)"
    using k0(1) k1(1) by (rule linear_rule_at_left) (simp_all add: k0(2) k1(2))
  have "Action smooth p ?t = Returns (map2 clip (knot_vector p 0) (actuator_ctrlrange (model p)))"
    using ok fi
  proof (rule Action_kernel)
    show "(if (0::int) = 1 \<or> representation p = kZeroSpline
        then ZeroInterpolation ?t (times_v p) (parameters p) ?d ?n
        else if representation p = kLinearSpline
        then LinearInterpolation ?t (times_v p) (parameters p) ?d ?n
        else CubicInterpolation smooth ?t (times_v p) (parameters p) ?d ?n)
        = Returns (knot_vector p 0)"
      by (simp add: ZeroInterpolation_def LinearInterpolation_def CubicInterpolation_def
            fi k0(1) lr)
    show "length (knot_vector p 0) = nat ?d" by (rule k0(2))
  qed
  then show ?thesis by (simp add: held_action_def)
qed

text \<open>
  C1. For a policy with at least one active knot and any query time: if the interval
  search returns \<open>(i0, i1)\<close> with \<open>i0 = i1\<close>, or the representation is Hold, then
  \<open>Action\<close> returns \<open>parameters[i0]\<close> clamped per dimension, whatever the representation.
  The pair is degenerate in particular with a single active knot, for a query before
  the first knot, and (the active times being non-decreasing) for a query after the
  last knot.
\<close>

theorem Action_hold_semantics:
  assumes ok: "policy_ok K p" and n: "1 \<le> num_spline_points p"
  shows "(\<forall>i0 i1. FindInterval (times_v p) t (num_spline_points p) = Returns (i0, i1) \<and>
                  (i0 = i1 \<or> representation p = kZeroSpline) \<longrightarrow>
             Action smooth p t = Returns (held_action p i0)) \<and>
         (num_spline_points p = 1 \<longrightarrow>
             FindInterval (times_v p) t (num_spline_points p) = Returns (0, 0)) \<and>
         (t < times_v p ! 0 \<longrightarrow>
             FindInterval (times_v p) t (num_spline_points p) = Returns (0, 0)) \<and>
         (sorted (take (nat (num_spline_points p)) (times_v p)) \<and>
          times_v p ! nat (num_spline_points p - 1) < t \<longrightarrow>
             FindInterval (times_v p) t (num_spline_points p)
               = Returns (num_spline_points p - 1, num_spline_points p - 1))"
proof -
  from ok n have K0: "0 < K" and nl: "num_spline_points p \<le> int (length (times_v p))"
    by (simp_all add: policy_ok_def)
  have hold: "\<forall>i0 i1. FindInterval (times_v p) t (num_spline_points p) = Returns (i0, i1) \<and>
                  (i0 = i1 \<or> representation p = kZeroSpline) \<longrightarrow>
             Action smooth p t = Returns (held_action p i0)"
    using Action_hold [OF ok K0] by blast
  have single: "num_spline_points p = 1 \<longrightarrow>
             FindInterval (times_v p) t (num_spline_points p) = Returns (0, 0)"
    using nl by (auto intro: FindInterval_single)
  have before: "t < times_v p ! 0 \<longrightarrow>
             FindInterval (times_v p) t (num_spline_points p) = Returns (0, 0)"
    using n nl by (auto intro: FindInterval_before)
  have after: "sorted (take (nat (num_spline_points p)) (times_v p)) \<and>
          times_v p ! nat (num_spline_points p - 1) < t \<longrightarrow>
             FindInterval (times_v p) t (num_spline_points p)
               = Returns (num_spline_points p - 1, num_spline_points p - 1)"
    using n nl by (auto intro: FindInterval_at_or_after)
  from hold single before after show ?thesis by blast
qed

theorem Action_hold_semantics_witness:
  "policy_ok 3 demo_policy \<and> 1 \<le> num_spline_points demo_policy \<and>
   FindInterval (times_v demo_policy) 5 (num_spline_points demo_policy) = Returns (1, 1) \<and>
   representation demo_policy = kLinearSpline \<and>
   Action flat_rule demo_policy 5 = Returns [30, 25]"
proof -
  have n: "1 \<le> num_spline_points demo_policy" by (simp add: demo_policy_def)
  have fi: "FindInterval (times_v demo_policy) 5 (num_spline_points demo_policy)
              = Returns (1, 1)"
    by (simp add: demo_policy_def FindInterval_def)
  have h: "held_action demo_policy 1 = [30, 25]"
    by (simp add: held_action_def knot_vector_def demo_policy_def demo_model_def clip_def)
  from Action_hold_semantics [OF demo_policy_ok n, of 5 flat_rule] fi
  have "Action flat_rule demo_policy 5 = Returns (held_action demo_policy 1)" by blast
  with demo_policy_ok n fi h show ?thesis by (simp add: demo_policy_def)
qed

text \<open>
  C2. For an allocated policy (of capacity at least 1, with ranges \<open>lo \<le> hi\<close>), any
  query time, any representation and any inner rule of the Smooth kernel, \<open>Action\<close>
  returns a vector of \<open>nu\<close> entries, each within its own actuator's control range.
\<close>

theorem Action_within_ctrlrange:
  assumes "policy_ok K p" and "0 < K"
    and "\<forall>r \<in> set (actuator_ctrlrange (model p)). fst r \<le> snd r"
  shows "\<exists>a. Action smooth p t = Returns a \<and> int (length a) = nu (model p) \<and>
           (\<forall>i < length a. fst (actuator_ctrlrange (model p) ! i) \<le> a ! i \<and>
                            a ! i \<le> snd (actuator_ctrlrange (model p) ! i))"
proof -
  from Action_Returns [OF assms(1,2), of t smooth] obtain y where
    y: "length y = nat (nu (model p))"
       "Action smooth p t = Returns (map2 clip y (actuator_ctrlrange (model p)))" by blast
  from assms(1) have r: "int (length (actuator_ctrlrange (model p))) = nu (model p)"
    and d: "0 \<le> nu (model p)" by (simp_all add: policy_ok_def)
  let ?a = "map2 clip y (actuator_ctrlrange (model p))"
  have la: "int (length ?a) = nu (model p)" using y(1) r d by simp
  have "\<forall>i < length ?a. fst (actuator_ctrlrange (model p) ! i) \<le> ?a ! i \<and>
                            ?a ! i \<le> snd (actuator_ctrlrange (model p) ! i)"
    using assms(3) by (auto intro: clip_in_range [THEN conjunct1] clip_in_range [THEN conjunct2])
  with y(2) la show ?thesis by blast
qed

theorem Action_within_ctrlrange_witness:
  "policy_ok 3 demo_policy \<and> (0::int) < 3 \<and>
   (\<exists>a. Action flat_rule demo_policy (1 / 2) = Returns a \<and> length a = 2 \<and>
        - 100 \<le> a ! 0 \<and> a ! 0 \<le> 100 \<and> 0 \<le> a ! 1 \<and> a ! 1 \<le> 25)"
proof -
  have K0: "(0::int) < 3" by simp
  have r: "\<forall>r \<in> set (actuator_ctrlrange (model demo_policy)). fst r \<le> snd r"
    by (simp add: demo_policy_def demo_model_def)
  from Action_within_ctrlrange [OF demo_policy_ok K0 r, of flat_rule "1 / 2"]
  obtain a where a: "Action flat_rule demo_policy (1 / 2) = Returns a"
    "int (length a) = nu (model demo_policy)"
    "\<forall>i < length a. fst (actuator_ctrlrange (model demo_policy) ! i) \<le> a ! i \<and>
                     a ! i \<le> snd (actuator_ctrlrange (model demo_policy) ! i)"
    by blast
  from a(2) have l: "length a = 2" by (simp add: demo_policy_def demo_model_def)
  with a(3) have "fst (actuator_ctrlrange (model demo_policy) ! 0) \<le> a ! 0"
    "a ! 0 \<le> snd (actuator_ctrlrange (model demo_policy) ! 0)"
    "fst (actuator_ctrlrange (model demo_policy) ! 1) \<le> a ! 1"
    "a ! 1 \<le> snd (actuator_ctrlrange (model demo_policy) ! 1)"
    by simp_all
  then have "- 100 \<le> a ! 0 \<and> a ! 0 \<le> 100 \<and> 0 \<le> a ! 1 \<and> a ! 1 \<le> 25"
    by (simp add: demo_policy_def demo_model_def)
  with a(1) l demo_policy_ok K0 show ?thesis by blast
qed

text \<open>
  C7. For a policy in the Linear representation with exactly two active knots, at
  times 0 and 1, with parameter vectors \<open>P0\<close> and \<open>P1\<close>: \<open>Action\<close> at 1/2 returns the
  clamp of \<open>(P0 + P1) / 2\<close>, at 0 the clamp of \<open>P0\<close> and at 1 the clamp of \<open>P1\<close>,
  component by component (over the real numbers).
\<close>

theorem Action_linear_two_knots:
  assumes ok: "policy_ok K p" and n: "num_spline_points p = 2"
    and rep: "representation p = kLinearSpline"
    and t0: "times_v p ! 0 = 0" and t1: "times_v p ! 1 = 1"
  shows "Action smooth p (1 / 2) =
           Returns (map2 clip (map2 (\<lambda>a b. (a + b) / 2) (knot_vector p 0) (knot_vector p 1))
                      (actuator_ctrlrange (model p))) \<and>
         Action smooth p 0 = Returns (held_action p 0) \<and>
         Action smooth p 1 = Returns (held_action p 1)"
proof -
  let ?d = "nu (model p)"
  from ok n have K0: "0 < K" and nl: "2 \<le> int (length (times_v p))"
    by (simp_all add: policy_ok_def)
  from nl obtain a b rest where xs: "times_v p = a # b # rest"
    by (cases "times_v p"; cases "tl (times_v p)") auto
  with t0 t1 have tk: "take 2 (times_v p) = [0, 1]" by (simp add: numeral_2_eq_2)
  have fi: "FindInterval (times_v p) (1 / 2) (num_spline_points p) = Returns (0, 1)"
    using nl by (simp add: n FindInterval_def tk)
  have k0: "knot (parameters p) ?d 0 = Returns (knot_vector p 0)"
    "length (knot_vector p 0) = nat ?d"
    using n by (simp_all add: knot_active [OF ok K0])
  have k1: "knot (parameters p) ?d 1 = Returns (knot_vector p 1)"
    "length (knot_vector p 1) = nat ?d"
    using n by (simp_all add: knot_active [OF ok K0])
  have lr: "linear_rule (1 / 2) (times_v p) (parameters p) ?d 0 1
      = Returns (map2 (\<lambda>a b. (a + b) / 2) (knot_vector p 0) (knot_vector p 1))"
    using k0(1) k1(1) by (rule linear_rule_at_middle) (use t0 t1 in simp_all)
  have mid: "Action smooth p (1 / 2) =
           Returns (map2 clip (map2 (\<lambda>a b. (a + b) / 2) (knot_vector p 0) (knot_vector p 1))
                      (actuator_ctrlrange (model p)))"
    using ok fi
  proof (rule Action_kernel)
    show "(if (0::int) = 1 \<or> representation p = kZeroSpline
        then ZeroInterpolation (1 / 2) (times_v p) (parameters p) ?d (num_spline_points p)
        else if representation p = kLinearSpline
        then LinearInterpolation (1 / 2) (times_v p) (parameters p) ?d (num_spline_points p)
        else CubicInterpolation smooth (1 / 2) (times_v p) (parameters p) ?d
               (num_spline_points p))
        = Returns (map2 (\<lambda>a b. (a + b) / 2) (knot_vector p 0) (knot_vector p 1))"
      by (simp add: rep LinearInterpolation_def fi lr)
    show "length (map2 (\<lambda>a b. (a + b) / 2) (knot_vector p 0) (knot_vector p 1)) = nat ?d"
      by (simp add: k0(2) k1(2))
  qed
  have "Action smooth p (times_v p ! 0) = Returns (held_action p 0)"
    using ok by (rule Action_at_first_knot) (use n t0 t1 in simp_all)
  then have left: "Action smooth p 0 = Returns (held_action p 0)" by (simp add: t0)
  have "FindInterval (times_v p) 1 (num_spline_points p) = Returns (1, 1)"
    using nl by (simp add: n FindInterval_def tk)
  from Action_hold [OF ok K0 this]
  have right: "Action smooth p 1 = Returns (held_action p 1)" by simp
  from mid left right show ?thesis by blast
qed

theorem Action_linear_two_knots_witness:
  "policy_ok 3 demo_policy \<and> num_spline_points demo_policy = 2 \<and>
   representation demo_policy = kLinearSpline \<and>
   times_v demo_policy ! 0 = 0 \<and> times_v demo_policy ! 1 = 1 \<and>
   Action flat_rule demo_policy (1 / 2) = Returns [20, 25] \<and>
   Action flat_rule demo_policy 0 = Returns [10, 20] \<and>
   Action flat_rule demo_policy 1 = Returns [30, 25]"
proof -
  have hyps: "num_spline_points demo_policy = 2" "representation demo_policy = kLinearSpline"
    "times_v demo_policy ! 0 = 0" "times_v demo_policy ! 1 = 1"
    by (simp_all add: demo_policy_def)
  have v: "knot_vector demo_policy 0 = [10, 20]" "knot_vector demo_policy 1 = [30, 40]"
    "actuator_ctrlrange (model demo_policy) = [(-100, 100), (0, 25)]"
    by (simp_all add: knot_vector_def demo_policy_def demo_model_def)
  from Action_linear_two_knots [OF demo_policy_ok hyps, of flat_rule]
  have "Action flat_rule demo_policy (1 / 2) = Returns [20, 25] \<and>
   Action flat_rule demo_policy 0 = Returns [10, 20] \<and>
   Action flat_rule demo_policy 1 = Returns [30, 25]"
    by (simp add: held_action_def v clip_def)
  with demo_policy_ok hyps show ?thesis by blast
qed

subsection \<open>Properties for every search that meets the contract\<close>
























subsection \<open>Copying\<close>

text \<open>
  C8. When the supplied sequences hold at least \<open>numSplinePoints * nu\<close> parameters and
  \<open>numSplinePoints\<close> times (the destination's own count), \<open>CopyParametersFrom\<close> returns
  the destination with exactly these prefixes of \<open>parameters\<close> and \<open>times\<close> overwritten:
  the entries behind the prefixes and every other field (representation, counts,
  improvement buffer, parameter-update buffer, trajectory, model) are unchanged.
\<close>

theorem CopyParametersFrom_frame:
  assumes ok: "policy_ok K p"
    and sp: "num_spline_points p * nu (model p) \<le> int (length src_parameters)"
    and st: "num_spline_points p \<le> int (length src_times)"
  shows "CopyParametersFrom p src_parameters src_times =
     Returns (p\<lparr>parameters := take (nat (num_spline_points p * nu (model p))) src_parameters
                     @ drop (nat (num_spline_points p * nu (model p))) (parameters p),
                times_v := take (nat (num_spline_points p)) src_times
                     @ drop (nat (num_spline_points p)) (times_v p)\<rparr>)"
proof -
  let ?n = "num_spline_points p" and ?d = "nu (model p)"
  from ok have d: "0 \<le> ?d" and n: "0 \<le> ?n" "?n \<le> K"
    and lp: "int (length (parameters p)) = ?d * K" and lt: "int (length (times_v p)) = K"
    by (simp_all add: policy_ok_def)
  have e0: "0 \<le> ?n * ?d" using d n by simp
  have "?d * ?n \<le> ?d * K" using d n(2) by (rule extent_le)
  then have e1: "?n * ?d \<le> int (length (parameters p))" by (simp add: lp mult.commute)
  have cp: "mju_copy (parameters p) src_parameters (?n * ?d) =
      Returns (take (nat (?n * ?d)) src_parameters @ drop (nat (?n * ?d)) (parameters p))"
    using e0 e1 sp by (rule mju_copy_Returns)
  have ct: "mju_copy (times_v p) src_times ?n =
      Returns (take (nat ?n) src_times @ drop (nat ?n) (times_v p))"
    using n(1) _ st by (rule mju_copy_Returns) (simp add: lt n)
  show ?thesis unfolding CopyParametersFrom_def by (simp only: cp ct bind_outcome.simps)
qed

theorem CopyParametersFrom_frame_witness:
  "policy_ok 3 demo_policy \<and>
   num_spline_points demo_policy * nu (model demo_policy) \<le> int (length [1, 2, 3, 4, 5 :: real]) \<and>
   num_spline_points demo_policy \<le> int (length [8, 9 :: real]) \<and>
   CopyParametersFrom demo_policy [1, 2, 3, 4, 5] [8, 9] =
     Returns (demo_policy\<lparr>parameters := [1, 2, 3, 4, 50, 60], times_v := [8, 9, 2]\<rparr>)"
proof -
  have sp: "num_spline_points demo_policy * nu (model demo_policy)
              \<le> int (length [1, 2, 3, 4, 5 :: real])"
    and st: "num_spline_points demo_policy \<le> int (length [8, 9 :: real])"
    by (simp_all add: demo_policy_def demo_model_def)
  from CopyParametersFrom_frame [OF demo_policy_ok sp st]
  have "CopyParametersFrom demo_policy [1, 2, 3, 4, 5] [8, 9] =
     Returns (demo_policy\<lparr>parameters := [1, 2, 3, 4, 50, 60], times_v := [8, 9, 2]\<rparr>)"
    by (simp add: demo_policy_def demo_model_def)
  with demo_policy_ok sp st show ?thesis by blast
qed

text \<open>
  C9. For a source and a destination allocated with the same capacity and number of
  actuators, and a horizon \<open>0 \<le> h \<le> maxHorizon\<close>, \<open>CopyFrom\<close> returns; afterwards the
  destination's trajectory is the source's, the first \<open>h * nu\<close> entries of its
  improvement buffer, the first \<open>numParameters\<close> entries of its parameters and of its
  parameter updates and the first \<open>numSplinePoints\<close> entries of its times (both counts
  the source's) equal the source's, and so do its \<open>numSplinePoints\<close>, \<open>numParameters\<close>
  and representation.
\<close>

theorem CopyFrom_copies_source:
  assumes okd: "policy_ok K p" and oks: "policy_ok K policy"
    and same: "nu (model p) = nu (model policy)"
    and h0: "0 \<le> h" and hK: "h \<le> K"
  shows "\<exists>p'. CopyFrom p policy h = Returns p' \<and>
     trajectory p' = trajectory policy \<and>
     take (nat (h * nu (model p))) (k p') = take (nat (h * nu (model p))) (k policy) \<and>
     take (nat (num_parameters policy)) (parameters p')
       = take (nat (num_parameters policy)) (parameters policy) \<and>
     take (nat (num_parameters policy)) (parameter_update p')
       = take (nat (num_parameters policy)) (parameter_update policy) \<and>
     take (nat (num_spline_points policy)) (times_v p')
       = take (nat (num_spline_points policy)) (times_v policy) \<and>
     num_spline_points p' = num_spline_points policy \<and>
     num_parameters p' = num_parameters policy \<and>
     representation p' = representation policy"
proof -
  let ?d = "nu (model p)" and ?np = "num_parameters policy" and ?ns = "num_spline_points policy"
  from okd have d: "0 \<le> ?d" and ld: "int (length (k p)) = ?d * K"
    "int (length (parameters p)) = ?d * K" "int (length (parameter_update p)) = ?d * K"
    "int (length (times_v p)) = K"
    by (simp_all add: policy_ok_def)
  from oks same have ls: "int (length (k policy)) = ?d * K"
    "int (length (parameters policy)) = ?d * K"
    "int (length (parameter_update policy)) = ?d * K"
    "int (length (times_v policy)) = K"
    and np: "?np = ?d * K" and ns: "0 \<le> ?ns" "?ns \<le> K" and K0: "0 \<le> K"
    by (simp_all add: policy_ok_def)
  have e0: "0 \<le> h * ?d" using d h0 by simp
  have "?d * h \<le> ?d * K" using d hK by (rule extent_le)
  then have e1: "h * ?d \<le> ?d * K" by (simp add: mult.commute)
  have np0: "0 \<le> ?np" using d K0 by (simp add: np)
  have ck: "mju_copy (k p) (k policy) (h * ?d) =
      Returns (take (nat (h * ?d)) (k policy) @ drop (nat (h * ?d)) (k p))"
    using e0 by (rule mju_copy_Returns) (simp_all add: ld ls e1)
  have cp: "mju_copy (parameters p) (parameters policy) ?np =
      Returns (take (nat ?np) (parameters policy) @ drop (nat ?np) (parameters p))"
    using np0 by (rule mju_copy_Returns) (simp_all add: ld ls np)
  have cu: "mju_copy (parameter_update p) (parameter_update policy) ?np =
      Returns (take (nat ?np) (parameter_update policy) @ drop (nat ?np) (parameter_update p))"
    using np0 by (rule mju_copy_Returns) (simp_all add: ld ls np)
  have ct: "mju_copy (times_v p) (times_v policy) ?ns =
      Returns (take (nat ?ns) (times_v policy) @ drop (nat ?ns) (times_v p))"
    using ns(1) by (rule mju_copy_Returns) (simp_all add: ld ls ns)
  have res: "CopyFrom p policy h =
      Returns (p\<lparr>trajectory := trajectory policy,
        k := take (nat (h * ?d)) (k policy) @ drop (nat (h * ?d)) (k p),
        parameters := take (nat ?np) (parameters policy) @ drop (nat ?np) (parameters p),
        parameter_update := take (nat ?np) (parameter_update policy)
                              @ drop (nat ?np) (parameter_update p),
        times_v := take (nat ?ns) (times_v policy) @ drop (nat ?ns) (times_v p),
        num_spline_points := ?ns, num_parameters := ?np,
        representation := representation policy\<rparr>)"
    unfolding CopyFrom_def by (simp only: ck cp cu ct bind_outcome.simps)
  have "nat (h * ?d) \<le> length (k policy)" using e0 e1 ls(1) by linarith
  moreover have "nat ?np \<le> length (parameters policy)"
    "nat ?np \<le> length (parameter_update policy)" using np0 np ls by linarith+
  moreover have "nat ?ns \<le> length (times_v policy)" using ns ls by linarith
  ultimately show ?thesis unfolding res by (simp add: take_copied)
qed

theorem CopyFrom_copies_source_witness:
  "policy_ok 3 demo_policy \<and> policy_ok 3 demo_source \<and>
   nu (model demo_policy) = nu (model demo_source) \<and> (0::int) \<le> 1 \<and> (1::int) \<le> 3 \<and>
   (\<exists>p'. CopyFrom demo_policy demo_source 1 = Returns p' \<and>
      trajectory p' = 9 \<and> take 2 (k p') = [11, 12] \<and>
      parameters p' = [-1, -2, -3, -4, -5, -6] \<and>
      parameter_update p' = [21, 22, 23, 24, 25, 26] \<and>
      times_v p' = [3, 4, 5] \<and> num_spline_points p' = 3 \<and> num_parameters p' = 6 \<and>
      representation p' = kCubicSpline)"
proof -
  have same: "nu (model demo_policy) = nu (model demo_source)"
    by (simp add: demo_policy_def demo_source_def)
  have h: "(0::int) \<le> 1" "(1::int) \<le> 3" by simp_all
  from CopyFrom_copies_source [OF demo_policy_ok demo_source_ok same h]
  obtain p' where p': "CopyFrom demo_policy demo_source 1 = Returns p'"
     "trajectory p' = trajectory demo_source"
     "take (nat (1 * nu (model demo_policy))) (k p')
        = take (nat (1 * nu (model demo_policy))) (k demo_source)"
     "take (nat (num_parameters demo_source)) (parameters p')
       = take (nat (num_parameters demo_source)) (parameters demo_source)"
     "take (nat (num_parameters demo_source)) (parameter_update p')
       = take (nat (num_parameters demo_source)) (parameter_update demo_source)"
     "take (nat (num_spline_points demo_source)) (times_v p')
       = take (nat (num_spline_points demo_source)) (times_v demo_source)"
     "num_spline_points p' = num_spline_points demo_source"
     "num_parameters p' = num_parameters demo_source"
     "representation p' = representation demo_source"
    by blast
  have full: "CopyFrom demo_policy demo_source 1 =
      Returns (demo_policy\<lparr>trajectory := 9, k := [11, 12, 3, 4, 5, 6],
        parameters := [-1, -2, -3, -4, -5, -6],
        parameter_update := [21, 22, 23, 24, 25, 26], times_v := [3, 4, 5],
        num_spline_points := 3, num_parameters := 6, representation := kCubicSpline\<rparr>)"
    by (simp add: CopyFrom_def mju_copy_def demo_policy_def demo_source_def demo_model_def)
  with p'(1) have "p' = demo_policy\<lparr>trajectory := 9, k := [11, 12, 3, 4, 5, 6],
        parameters := [-1, -2, -3, -4, -5, -6],
        parameter_update := [21, 22, 23, 24, 25, 26], times_v := [3, 4, 5],
        num_spline_points := 3, num_parameters := 6, representation := kCubicSpline\<rparr>"
    by simp
  then have "trajectory p' = 9 \<and> take 2 (k p') = [11, 12] \<and>
      parameters p' = [-1, -2, -3, -4, -5, -6] \<and>
      parameter_update p' = [21, 22, 23, 24, 25, 26] \<and>
      times_v p' = [3, 4, 5] \<and> num_spline_points p' = 3 \<and> num_parameters p' = 6 \<and>
      representation p' = kCubicSpline"
    by simp
  with p'(1) demo_policy_ok demo_source_ok same h show ?thesis by blast
qed

end
